theory Spec2Isabelle
  imports Main
begin

section \<open>The parsed DDL that \<^verbatim>\<open>sqlite_to_orm.py\<close> consumes\<close>

text \<open>
  \<^verbatim>\<open>convert_sqlite_to_orm\<close> works on the statement list returned by the SQL parser.
  The parser is an external library; its syntax tree is represented here by the parts
  of each node that the translation reads. A Python string is modelled as a \<open>string\<close>
  whose characters are code points below 256; exceptions are values of \<open>error\<close>.
\<close>

datatype error = ValueError string | TypeError string | AttributeError string

text \<open>\<^verbatim>\<open>DataType.Type\<close>: the type tags; \<open>OtherType\<close> is any tag outside \<^verbatim>\<open>SQL_TYPE_MAP\<close>.\<close>

datatype Type = VARCHAR | TEXT | SMALLINT | BIGINT | INT_type | DECIMAL | DATETIME
  | OtherType string

text \<open>
  \<^verbatim>\<open>DataType\<close>: \<open>dt_this\<close> is \<^verbatim>\<open>kind.this\<close>; \<open>dt_expressions\<close> holds, for every element
  \<^verbatim>\<open>e\<close> of \<^verbatim>\<open>kind.expressions\<close>, the string \<^verbatim>\<open>e.this.this\<close>.
\<close>

record DataType =
  dt_this :: Type
  dt_expressions :: "string list"

text \<open>
  The \<^verbatim>\<open>kind\<close> of a column constraint, as far as \<^verbatim>\<open>isinstance\<close> distinguishes it.
  The parser builds a \<^verbatim>\<open>NotNullColumnConstraint\<close> for \<^verbatim>\<open>NOT NULL\<close> and, with the flag
  \<^verbatim>\<open>allow_null\<close> set, for an explicit \<^verbatim>\<open>NULL\<close>; the flag is the argument here.
\<close>

datatype ColumnConstraintKind = NotNullColumnConstraint bool | OtherColumnConstraint

record ColumnDef =
  col_name :: string
  col_kind :: DataType
  col_constraints :: "ColumnConstraintKind list"

text \<open>
  The single expression of a table constraint:
  \<^item> \<open>PrimaryKey cols\<close>: \<^verbatim>\<open>col.this.this.this\<close> for every \<^verbatim>\<open>col\<close> of \<^verbatim>\<open>this.expressions\<close>;
  \<^item> \<open>UniqueColumnConstraint cols\<close>: \<^verbatim>\<open>ident.this\<close> for every \<^verbatim>\<open>ident\<close> of
    \<^verbatim>\<open>this.this.expressions\<close>;
  \<^item> \<open>CheckColumnConstraint text\<close>: the text that formatting \<^verbatim>\<open>const_expr.this\<close> gives;
  \<^item> \<open>ForeignKey cols ref opts\<close>: \<^verbatim>\<open>ident.this\<close> of \<^verbatim>\<open>this.expressions\<close>, the node
    \<^verbatim>\<open>head_ref.this\<close>, and the strings of \<^verbatim>\<open>head_ref.args["options"]\<close>;
  \<^item> \<open>OtherConstraint\<close>: any other node.
  The node \<^verbatim>\<open>ref = head_ref.this\<close> of a foreign key is a schema when the reference names
  columns (\<open>SchemaRef table cols\<close>: \<^verbatim>\<open>ref.this.this.this\<close> and \<^verbatim>\<open>ident.this\<close> of
  \<^verbatim>\<open>ref.expressions\<close>) and the table itself when it names none (\<open>TableRef table\<close>);
  in the second case \<^verbatim>\<open>ref.this.this\<close> is already the name, a string.
\<close>

datatype ReferenceThis = SchemaRef string "string list" | TableRef string

datatype ConstraintKind =
    PrimaryKey "string list"
  | UniqueColumnConstraint "string list"
  | CheckColumnConstraint string
  | ForeignKey "string list" ReferenceThis "string list"
  | OtherConstraint

text \<open>\<^verbatim>\<open>Constraint\<close>: \<open>const_name\<close> is \<^verbatim>\<open>const.this.this\<close>.\<close>

record Constraint =
  const_name :: string
  const_expressions :: "ConstraintKind list"

text \<open>
  A sub-node of the schema of a table statement: a column, a constraint written with
  \<^verbatim>\<open>CONSTRAINT name\<close> (a \<^verbatim>\<open>Constraint\<close> node), or a table constraint written without a
  name, which the parser puts there as the bare \<^verbatim>\<open>PrimaryKey\<close>, \<^verbatim>\<open>ForeignKey\<close>, ... node.
\<close>

datatype TableNode =
    ColumnDefNode ColumnDef
  | ConstraintNode Constraint
  | UnnamedConstraintNode ConstraintKind

text \<open>
  A \<^verbatim>\<open>CREATE TABLE\<close> statement: \<open>table_name\<close> is \<^verbatim>\<open>expr.this.this.name\<close>,
  \<open>table_expressions\<close> the sub-nodes of its schema \<^verbatim>\<open>expr.this\<close> in the order of the
  statement.
\<close>

record Table =
  table_name :: string
  table_expressions :: "TableNode list"

text \<open>
  A \<^verbatim>\<open>CREATE INDEX\<close> statement: \<^verbatim>\<open>expr.this.this.name\<close>, the truth value of
  \<^verbatim>\<open>expr.args.get("unique", False)\<close>, \<^verbatim>\<open>expr.this.args["table"].this.this\<close>, and
  \<^verbatim>\<open>col.this.this\<close> for every column of the index parameters.
\<close>

record Index =
  index_name :: string
  index_unique :: bool
  index_table :: string
  index_columns :: "string list"

text \<open>
  A parsed statement. \<open>CreateTable\<close> and \<open>CreateIndex\<close> are the \<^verbatim>\<open>Create\<close> nodes
  whose \<^verbatim>\<open>kind\<close> is \<^verbatim>\<open>"TABLE"\<close> and \<^verbatim>\<open>"INDEX"\<close>; \<open>CreateOther k\<close> is a \<^verbatim>\<open>Create\<close>
  node of any other kind \<open>k\<close> (a view, say); \<open>NonCreate\<close> is a node of another class.
\<close>

datatype Expression =
    CreateTable Table
  | CreateIndex Index
  | CreateOther string
  | NonCreate

fun is_Create :: "Expression \<Rightarrow> bool" where
  "is_Create NonCreate = False"
| "is_Create _ = True"

fun kind_is_table_or_index :: "Expression \<Rightarrow> bool" where
  "kind_is_table_or_index (CreateTable _) = True"
| "kind_is_table_or_index (CreateIndex _) = True"
| "kind_is_table_or_index _ = False"

text \<open>\<^verbatim>\<open>[expr for expr in expressions if expr.kind == "INDEX"]\<close>, and the same for tables.\<close>

fun indexes_of :: "Expression list \<Rightarrow> Index list" where
  "indexes_of [] = []"
| "indexes_of (CreateIndex i # es) = i # indexes_of es"
| "indexes_of (_ # es) = indexes_of es"

fun tables_of :: "Expression list \<Rightarrow> Table list" where
  "tables_of [] = []"
| "tables_of (CreateTable t # es) = t # tables_of es"
| "tables_of (_ # es) = tables_of es"

text \<open>
  \<^verbatim>\<open>expr.find_all(Constraint)\<close> and \<^verbatim>\<open>expr.find_all(ColumnDef)\<close>, in statement order.
  A constraint without a name is no \<^verbatim>\<open>Constraint\<close> node and is not found.
\<close>

fun find_all_Constraint :: "TableNode list \<Rightarrow> Constraint list" where
  "find_all_Constraint [] = []"
| "find_all_Constraint (ConstraintNode c # ns) = c # find_all_Constraint ns"
| "find_all_Constraint (_ # ns) = find_all_Constraint ns"

fun find_all_ColumnDef :: "TableNode list \<Rightarrow> ColumnDef list" where
  "find_all_ColumnDef [] = []"
| "find_all_ColumnDef (ColumnDefNode c # ns) = c # find_all_ColumnDef ns"
| "find_all_ColumnDef (_ # ns) = find_all_ColumnDef ns"

text \<open>\<^verbatim>\<open>isinstance(expr, (ColumnDef, Constraint))\<close>\<close>

fun is_column_or_constraint :: "TableNode \<Rightarrow> bool" where
  "is_column_or_constraint (UnnamedConstraintNode _) = False"
| "is_column_or_constraint _ = True"

text \<open>
  \<^verbatim>\<open>expr.expressions\<close> for the \<^verbatim>\<open>Create\<close> node \<^verbatim>\<open>expr\<close> of a table statement, which line 132
  iterates: the sub-nodes of the statement hang under the schema \<^verbatim>\<open>expr.this\<close>, and the
  \<^verbatim>\<open>Create\<close> node has no expressions of its own.
\<close>

definition create_expressions :: "Table \<Rightarrow> TableNode list" where
  "create_expressions expr = []"


section \<open>String operations of Python\<close>

definition nl :: string where
  "nl = [CHR 0x0A]"

text \<open>\<^verbatim>\<open>sep.join(xs)\<close>\<close>

fun join :: "string \<Rightarrow> string list \<Rightarrow> string" where
  "join sep [] = []"
| "join sep [x] = x"
| "join sep (x # y # ys) = x @ sep @ join sep (y # ys)"

text \<open>\<^verbatim>\<open>s.startswith(p)\<close>\<close>

definition startswith :: "string \<Rightarrow> string \<Rightarrow> bool" where
  "startswith s p = (take (length p) s = p)"

text \<open>
  \<^verbatim>\<open>s.isdigit()\<close>: at least one character, and every character a digit. Below 256
  the digits of Python are \<^verbatim>\<open>0\<close> to \<^verbatim>\<open>9\<close> and the superscripts two, three and one
  (U+00B2, U+00B3, U+00B9).
\<close>

definition isdigit_char :: "char \<Rightarrow> bool" where
  "isdigit_char c = (c \<in> set ''0123456789'' \<or> c \<in> set [CHR 0xB2, CHR 0xB3, CHR 0xB9])"

definition isdigit :: "string \<Rightarrow> bool" where
  "isdigit s = (s \<noteq> [] \<and> list_all isdigit_char s)"

text \<open>\<^verbatim>\<open>s.split(sep)\<close> for a separator of one character.\<close>

fun split :: "char \<Rightarrow> string \<Rightarrow> string list" where
  "split sep [] = [[]]"
| "split sep (c # cs) =
     (if c = sep then [] # split sep cs
      else (case split sep cs of
              [] \<Rightarrow> [[c]]
            | w # ws \<Rightarrow> (c # w) # ws))"

text \<open>\<^verbatim>\<open>f'"{s}"'\<close>\<close>

definition quoted :: "string \<Rightarrow> string" where
  \<open>quoted s = ''"'' @ s @ ''"''\<close>


section \<open>The type mapping\<close>

definition MAX_LINE_LENGTH :: nat where
  "MAX_LINE_LENGTH = 100"

text \<open>
  \<^verbatim>\<open>parse_varchar\<close>. The message of the first error ends in Python's rendering of the
  argument list, which is left out here.
\<close>

definition parse_varchar :: "DataType \<Rightarrow> error + (string \<times> string)" where
  "parse_varchar kind =
     (if length (dt_expressions kind) \<noteq> 1 then Inl (ValueError ''Invalid varchar args: '')
      else
        let length = dt_expressions kind ! 0 in
        if \<not> isdigit length then Inl (ValueError (''Invalid varchar args: '' @ length))
        else Inr (''str'', ''String('' @ length @ '')''))"

text \<open>\<^verbatim>\<open>parse_decimal\<close>; the first error message is cut in the same way.\<close>

definition parse_decimal :: "DataType \<Rightarrow> error + (string \<times> string)" where
  "parse_decimal kind =
     (if dt_expressions kind = [] then Inr (''float'', '''')
      else if length (dt_expressions kind) \<noteq> 2 then Inl (ValueError ''Invalid decimal args: '')
      else
        let prec = dt_expressions kind ! 0;
            scale = dt_expressions kind ! 1 in
        if \<not> isdigit prec \<or> \<not> isdigit scale
        then Inl (ValueError (''Invalid decimal args: '' @ prec @ '', '' @ scale))
        else Inr (''float'', ''Numeric('' @ prec @ '', '' @ scale @ '')''))"

text \<open>An entry of \<^verbatim>\<open>SQL_TYPE_MAP\<close>: a constant pair or a function of the type node.\<close>

datatype type_cb =
    Tuple "string \<times> string"
  | Callable "DataType \<Rightarrow> error + (string \<times> string)"

fun SQL_TYPE_MAP :: "Type \<Rightarrow> type_cb option" where
  "SQL_TYPE_MAP VARCHAR = Some (Callable parse_varchar)"
| "SQL_TYPE_MAP TEXT = Some (Tuple (''str'', ''Text()''))"
| "SQL_TYPE_MAP SMALLINT = Some (Tuple (''int'', ''SmallInteger()''))"
| "SQL_TYPE_MAP BIGINT = Some (Tuple (''int'', ''BigInteger()''))"
| "SQL_TYPE_MAP INT_type = Some (Tuple (''int'', ''''))"
| "SQL_TYPE_MAP DECIMAL = Some (Callable parse_decimal)"
| "SQL_TYPE_MAP DATETIME = Some (Tuple (''datetime'', ''''))"
| "SQL_TYPE_MAP (OtherType _) = None"

text \<open>
  Lines 187 to 195: the pair \<^verbatim>\<open>(map_python, map_alchemy)\<close> of a column's type. The
  message of the unknown-type error ends in the SQL text of the type, left out here.
\<close>

definition map_type :: "DataType \<Rightarrow> error + (string \<times> string)" where
  "map_type kind =
     (case SQL_TYPE_MAP (dt_this kind) of
        None \<Rightarrow> Inl (TypeError ''Unknown column type '')
      | Some (Callable f) \<Rightarrow> f kind
      | Some (Tuple p) \<Rightarrow>
          if dt_expressions kind \<noteq> []
          then Inl (ValueError ''Simple mapping types should not have expressions'')
          else Inr p)"


section \<open>Indexes\<close>

text \<open>Lines 113 to 119: the declaration of one index statement.\<close>

definition index_decl :: "Index \<Rightarrow> string" where
  \<open>index_decl expr =
     (let unique_str = (if index_unique expr then '', unique=True'' else '''');
          col_names = map quoted (index_columns expr)
      in ''Index("'' @ index_name expr @ ''", '' @ join '', '' col_names @ unique_str @ '')'')\<close>

text \<open>
  The loop of lines 112 to 120 over the index statements. The dictionary
  \<^verbatim>\<open>table_indexes\<close> is a map from table names to lists of declarations;
  \<^verbatim>\<open>table_indexes.setdefault(table, []).append(index)\<close> is one update of it.
\<close>

definition setdefault_append :: "(string \<rightharpoonup> string list) \<Rightarrow> string \<Rightarrow> string \<Rightarrow> (string \<rightharpoonup> string list)" where
  "setdefault_append m k v = m(k \<mapsto> (case m k of None \<Rightarrow> [] | Some vs \<Rightarrow> vs) @ [v])"

fun indexes_loop :: "(string \<rightharpoonup> string list) \<Rightarrow> Index list \<Rightarrow> (string \<rightharpoonup> string list)" where
  "indexes_loop table_indexes [] = table_indexes"
| "indexes_loop table_indexes (expr # exprs) =
     indexes_loop (setdefault_append table_indexes (index_table expr) (index_decl expr)) exprs"

text \<open>\<^verbatim>\<open>table_indexes.get(table, [])\<close>\<close>

definition get_indexes :: "(string \<rightharpoonup> string list) \<Rightarrow> string \<Rightarrow> string list" where
  "get_indexes table_indexes table = (case table_indexes table of None \<Rightarrow> [] | Some vs \<Rightarrow> vs)"


section \<open>Table constraints\<close>

text \<open>Lines 164 to 169: the loop over the options of a foreign-key reference.\<close>

fun options_loop :: "string \<Rightarrow> string list \<Rightarrow> error + string" where
  "options_loop option_str [] = Inr option_str"
| \<open>options_loop option_str (opt # opts) =
     (if opt = ''ON DELETE CASCADE'' then options_loop (option_str @ '', ondelete="CASCADE"'') opts
      else Inl (ValueError (''Unknown option '' @ opt)))\<close>

text \<open>
  The message of the \<^verbatim>\<open>AttributeError\<close> that \<^verbatim>\<open>ref.this.this.this\<close> raises on line 162
  when \<^verbatim>\<open>ref.this.this\<close> is a string.
\<close>

definition str_has_no_this :: string where
  "str_has_no_this = [CHR 0x27] @ ''str'' @ [CHR 0x27] @ '' object has no attribute '' @
                     [CHR 0x27] @ ''this'' @ [CHR 0x27]"

text \<open>
  Lines 139 to 174: one pass of the loop over the constraints of a table. The state
  is the pair \<^verbatim>\<open>(primary_key, table_args)\<close>. The message of the last error ends in
  the SQL text of the node, left out here.
\<close>

fun constraint_step :: "string list \<times> string list \<Rightarrow> Constraint \<Rightarrow> error + (string list \<times> string list)" where
  \<open>constraint_step (primary_key, table_args) const =
     (if length (const_expressions const) \<noteq> 1
      then Inl (ValueError ''Invalid constraint definition: only single expression allowed'')
      else
        let name = const_name const in
        case const_expressions const ! 0 of
          PrimaryKey cols \<Rightarrow>
            if primary_key \<noteq> [] then Inl (ValueError ''Multiple primary keys found'')
            else
              let primary_key' = primary_key @ cols;
                  quoted_cols = map quoted primary_key'
              in Inr (primary_key',
                      table_args @
                        [''PrimaryKeyConstraint('' @ join '', '' quoted_cols @ '', name="'' @ name @ ''")''])
        | UniqueColumnConstraint idents \<Rightarrow>
            let cols = map quoted idents
            in Inr (primary_key,
                    table_args @ [''UniqueConstraint('' @ join '', '' cols @ '', name="'' @ name @ ''")''])
        | CheckColumnConstraint const_expr \<Rightarrow>
            if \<not> length (const_expressions const) = 1
            then Inl (ValueError ''Only one column allowed in check constraint'')
            else Inr (primary_key,
                      table_args @ [''CheckConstraint("'' @ const_expr @ ''", name="'' @ name @ ''")''])
        | ForeignKey idents ref opts \<Rightarrow>
            let curr_cols = map quoted idents in
            (case ref of
               TableRef ref_name \<Rightarrow> Inl (AttributeError str_has_no_this)
             | SchemaRef ref_table ref_idents \<Rightarrow>
                 let ref_cols = map (\<lambda>ident. ''"'' @ ref_table @ ''.'' @ ident @ ''"'') ref_idents
                 in (case options_loop '''' opts of
                       Inl e \<Rightarrow> Inl e
                     | Inr option_str \<Rightarrow>
                         Inr (primary_key,
                              table_args @
                                [''ForeignKeyConstraint(['' @ join '', '' curr_cols @ ''], ['' @
                                 join '', '' ref_cols @ ''], name="'' @ name @ ''"'' @ option_str @
                                 '')''])))
        | OtherConstraint \<Rightarrow> Inl (TypeError ''Unknown constraint ''))\<close>

fun constraints_loop :: "string list \<times> string list \<Rightarrow> Constraint list \<Rightarrow> error + (string list \<times> string list)" where
  "constraints_loop st [] = Inr st"
| "constraints_loop st (const # rest) =
     (case constraint_step st const of
        Inl e \<Rightarrow> Inl e
      | Inr st' \<Rightarrow> constraints_loop st' rest)"

text \<open>Lines 178 to 183: the lines that render \<^verbatim>\<open>table_args\<close>.\<close>

definition render_table_args :: "string list \<Rightarrow> string list" where
  "render_table_args table_args =
     (if length (join '', '' table_args) + 23 > MAX_LINE_LENGTH
      then [''    __table_args__ = (''] @
           map (\<lambda>line. ''        '' @ line @ '','') table_args @
           [''    )'']
      else if table_args \<noteq> []
      then [''    __table_args__ = ('' @ join '', '' table_args @ '',)'']
      else [])"


section \<open>Columns\<close>

text \<open>Lines 196 to 201: the loop over the constraints of a column.\<close>

fun col_constraints_loop :: "bool \<Rightarrow> ColumnConstraintKind list \<Rightarrow> error + bool" where
  "col_constraints_loop can_be_null [] = Inr can_be_null"
| "col_constraints_loop can_be_null (NotNullColumnConstraint allow_null # cs) =
     col_constraints_loop False cs"
| "col_constraints_loop can_be_null (OtherColumnConstraint # cs) =
     Inl (TypeError ''Unknown column constraint type'')"

text \<open>Lines 186 to 208: the line emitted for a column.\<close>

definition column_line :: "string list \<Rightarrow> ColumnDef \<Rightarrow> error + string" where
  "column_line primary_key col =
     (case map_type (col_kind col) of
        Inl e \<Rightarrow> Inl e
      | Inr (map_python, map_alchemy) \<Rightarrow>
          (case col_constraints_loop True (col_constraints col) of
             Inl e \<Rightarrow> Inl e
           | Inr can_be_null \<Rightarrow>
               let map_alchemy' =
                     (if map_alchemy \<noteq> [] then '' = mapped_column('' @ map_alchemy @ '')''
                      else map_alchemy);
                   optional_suffix =
                     (if can_be_null \<and> col_name col \<notin> set primary_key then '' | None'' else '''');
                   col_def = col_name col @ '': Mapped['' @ map_python @ optional_suffix @ '']'' @
                             map_alchemy'
               in Inr (''    '' @ col_def)))"

fun columns_loop :: "string list \<Rightarrow> ColumnDef list \<Rightarrow> error + string list" where
  "columns_loop primary_key [] = Inr []"
| "columns_loop primary_key (col # cols) =
     (case column_line primary_key col of
        Inl e \<Rightarrow> Inl e
      | Inr line \<Rightarrow>
          (case columns_loop primary_key cols of
             Inl e \<Rightarrow> Inl e
           | Inr lines \<Rightarrow> Inr (line # lines)))"


section \<open>Tables and the whole translation\<close>

text \<open>
  Line 126. \<^verbatim>\<open>str.capitalize\<close> belongs to Python and not to this program, and on
  letters outside ASCII its result need not be a string of code points below 256 (the
  capital of U+00FF is U+0178): it is the parameter \<open>capitalize\<close> of the translation,
  and every theorem holds for every function in its place.
\<close>

definition class_name :: "(string \<Rightarrow> string) \<Rightarrow> string \<Rightarrow> string" where
  "class_name capitalize table = concat (map capitalize (split (CHR ''_'') table))"

definition class_line :: "(string \<Rightarrow> string) \<Rightarrow> string \<Rightarrow> string" where
  "class_line capitalize table = ''class '' @ class_name capitalize table @ ''(Base):''"

text \<open>Lines 127 to 130: the four lines that open the block of a table.\<close>

definition table_head :: "(string \<Rightarrow> string) \<Rightarrow> string \<Rightarrow> string list" where
  \<open>table_head capitalize table =
     [class_line capitalize table,
      ''    """ORM class for '' @ table @ ''."""'',
      '''',
      ''    __tablename__ = "'' @ table @ ''"'']\<close>

text \<open>
  Lines 126 to 211: the lines appended for one table that is not skipped, or the
  error raised while working on it. The test of line 132 runs over
  \<open>create_expressions\<close>.
\<close>

definition table_lines ::
  "(string \<Rightarrow> string) \<Rightarrow> (string \<rightharpoonup> string list) \<Rightarrow> Table \<Rightarrow> error + string list" where
  "table_lines capitalize table_indexes expr =
     (let table = table_name expr;
          head = table_head capitalize table
      in if \<not> list_all is_column_or_constraint (create_expressions expr)
         then Inl (ValueError ''Invalid table definition: only columns and constraints allowed'')
         else
           case constraints_loop ([], []) (find_all_Constraint (table_expressions expr)) of
             Inl e \<Rightarrow> Inl e
           | Inr (primary_key, table_args) \<Rightarrow>
               let table_args' = table_args @ get_indexes table_indexes table in
               (case columns_loop primary_key (find_all_ColumnDef (table_expressions expr)) of
                  Inl e \<Rightarrow> Inl e
                | Inr col_lines \<Rightarrow>
                    Inr (head @ render_table_args table_args' @ col_lines @ ['''', ''''])))"

text \<open>Lines 122 to 211: the loop over the table statements, with the list \<^verbatim>\<open>lines\<close>.\<close>

fun tables_loop ::
  "(string \<Rightarrow> string) \<Rightarrow> (string \<rightharpoonup> string list) \<Rightarrow> string list \<Rightarrow> Table list \<Rightarrow>
   error + string list" where
  "tables_loop capitalize table_indexes lines [] = Inr lines"
| "tables_loop capitalize table_indexes lines (expr # exprs) =
     (if startswith (table_name expr) ''sqlite_''
      then tables_loop capitalize table_indexes lines exprs
      else
        case table_lines capitalize table_indexes expr of
          Inl e \<Rightarrow> Inl e
        | Inr ls \<Rightarrow> tables_loop capitalize table_indexes (lines @ ls) exprs)"

definition version :: string where
  "version = ''1.0.35''"

text \<open>The value of \<^verbatim>\<open>header\<close>: the dedented text of lines 73 to 101.\<close>

definition header :: string where
  \<open>header = concat (map (\<lambda>l. l @ nl)
     [''"""ORM schema."""'',
      ''# ruff: noqa: E501'',
      '''',
      ''from __future__ import annotations'',
      '''',
      ''from datetime import datetime  # noqa: TC003'',
      '''',
      ''from sqlalchemy import ('',
      ''    BigInteger,'',
      ''    CheckConstraint,'',
      ''    ForeignKeyConstraint,'',
      ''    Index,'',
      ''    Numeric,'',
      ''    PrimaryKeyConstraint,'',
      ''    SmallInteger,'',
      ''    String,'',
      ''    Text,'',
      ''    UniqueConstraint,'',
      '')'',
      ''from sqlalchemy.orm import DeclarativeBase, Mapped, mapped_column'',
      '''',
      ''__version__ = "'' @ version @ ''"'',
      '''',
      '''',
      ''class Base(DeclarativeBase):'',
      ''    """ORM base class."""'',
      '''',
      ''''])\<close>

text \<open>
  Lines 69 to 211: from the parsed statements to the final value of \<^verbatim>\<open>lines\<close>.
\<close>

definition translate_lines :: "(string \<Rightarrow> string) \<Rightarrow> Expression list \<Rightarrow> error + string list" where
  "translate_lines capitalize expressions =
     (if \<not> list_all is_Create expressions
      then Inl (ValueError ''Input file must contain only CREATE TABLE statements.'')
      else if \<not> list_all kind_is_table_or_index expressions
      then Inl (ValueError ''Input file must contain only CREATE TABLE and CREATE INDEX statements.'')
      else
        let indexes = indexes_of expressions;
            tables = tables_of expressions;
            table_indexes = indexes_loop Map.empty indexes
        in tables_loop capitalize table_indexes [] tables)"

text \<open>The text handed to \<^verbatim>\<open>write_text\<close> on line 213.\<close>

definition translate :: "(string \<Rightarrow> string) \<Rightarrow> Expression list \<Rightarrow> error + string" where
  "translate capitalize expressions =
     (case translate_lines capitalize expressions of
        Inl e \<Rightarrow> Inl e
      | Inr lines \<Rightarrow> Inr (header @ join nl lines))"

text \<open>
  \<^verbatim>\<open>convert_sqlite_to_orm\<close>, from the statements that parsing the input file gave. The
  file system is the list of the writes done so far, each a path and the text written.
\<close>

type_synonym files = "(string \<times> string) list"

definition convert_sqlite_to_orm ::
  "(string \<Rightarrow> string) \<Rightarrow> Expression list \<Rightarrow> string \<Rightarrow> files \<Rightarrow> (error + unit) \<times> files" where
  "convert_sqlite_to_orm capitalize expressions output_path fs =
     (case translate capitalize expressions of
        Inl e \<Rightarrow> (Inl e, fs)
      | Inr text \<Rightarrow> (Inr (), fs @ [(output_path, text)]))"


section \<open>The checks of the translation as conditions on the input\<close>

text \<open>
  The inputs on which no \<^verbatim>\<open>raise\<close> of the translation is reached, written as a
  condition on the parsed statements alone. Every clause is the negation of the
  condition of one \<^verbatim>\<open>raise\<close>: lines 34 to 51 and 187 to 194 for the type of a column,
  line 201 for its constraints, lines 139 to 174 for the constraints of a table, lines 69
  and 104 for the statements.
\<close>

fun accepted_type :: "Type \<Rightarrow> string list \<Rightarrow> bool" where
  "accepted_type VARCHAR [n] = isdigit n"
| "accepted_type VARCHAR _ = False"
| "accepted_type DECIMAL [] = True"
| "accepted_type DECIMAL [p, s] = (isdigit p \<and> isdigit s)"
| "accepted_type DECIMAL _ = False"
| "accepted_type (OtherType _) _ = False"
| "accepted_type _ args = (args = [])"

fun is_not_null :: "ColumnConstraintKind \<Rightarrow> bool" where
  "is_not_null (NotNullColumnConstraint _) = True"
| "is_not_null OtherColumnConstraint = False"

definition accepted_column :: "ColumnDef \<Rightarrow> bool" where
  "accepted_column col =
     (accepted_type (dt_this (col_kind col)) (dt_expressions (col_kind col)) \<and>
      list_all is_not_null (col_constraints col))"

text \<open>
  One constraint of a table, given whether a primary key with at least one column has
  been recorded: \<open>None\<close> when the constraint raises, otherwise whether a primary key is
  recorded afterwards.
\<close>

fun accepted_constraint :: "bool \<Rightarrow> ConstraintKind list \<Rightarrow> bool option" where
  "accepted_constraint recorded [PrimaryKey cols] =
     (if recorded then None else Some (cols \<noteq> []))"
| "accepted_constraint recorded [UniqueColumnConstraint _] = Some recorded"
| "accepted_constraint recorded [CheckColumnConstraint _] = Some recorded"
| "accepted_constraint recorded [ForeignKey _ (SchemaRef _ _) opts] =
     (if list_all (\<lambda>opt. opt = ''ON DELETE CASCADE'') opts then Some recorded else None)"
| "accepted_constraint recorded _ = None"

fun accepted_constraints :: "bool \<Rightarrow> Constraint list \<Rightarrow> bool" where
  "accepted_constraints recorded [] = True"
| "accepted_constraints recorded (c # cs) =
     (case accepted_constraint recorded (const_expressions c) of
        None \<Rightarrow> False
      | Some recorded' \<Rightarrow> accepted_constraints recorded' cs)"

definition accepted_table :: "Table \<Rightarrow> bool" where
  "accepted_table t =
     (accepted_constraints False (find_all_Constraint (table_expressions t)) \<and>
      list_all accepted_column (find_all_ColumnDef (table_expressions t)))"

definition accepted_input :: "Expression list \<Rightarrow> bool" where
  "accepted_input exprs =
     (list_all is_Create exprs \<and> list_all kind_is_table_or_index exprs \<and>
      list_all (\<lambda>t. startswith (table_name t) ''sqlite_'' \<or> accepted_table t) (tables_of exprs))"





section \<open>Example inputs\<close>

text \<open>Columns and statements used to run the theorems below on concrete inputs.\<close>

definition upper_char :: "char \<Rightarrow> char" where
  "upper_char c =
     (case map_of (zip ''abcdefghijklmnopqrstuvwxyz'' ''ABCDEFGHIJKLMNOPQRSTUVWXYZ'') c of
        None \<Rightarrow> c
      | Some u \<Rightarrow> u)"

definition lower_char :: "char \<Rightarrow> char" where
  "lower_char c =
     (case map_of (zip ''ABCDEFGHIJKLMNOPQRSTUVWXYZ'' ''abcdefghijklmnopqrstuvwxyz'') c of
        None \<Rightarrow> c
      | Some l \<Rightarrow> l)"

text \<open>
  \<^verbatim>\<open>s.capitalize()\<close> for a string of ASCII characters: the first character in upper
  case, the others in lower case. It stands for \<^verbatim>\<open>str.capitalize\<close> in the examples, whose
  names are ASCII.
\<close>

fun ascii_capitalize :: "string \<Rightarrow> string" where
  "ascii_capitalize [] = []"
| "ascii_capitalize (c # cs) = upper_char c # map lower_char cs"



definition id_col :: ColumnDef where
  "id_col = \<lparr>col_name = ''id'', col_kind = \<lparr>dt_this = INT_type, dt_expressions = []\<rparr>,
             col_constraints = []\<rparr>"

definition note_col :: ColumnDef where
  "note_col = \<lparr>col_name = ''note'', col_kind = \<lparr>dt_this = TEXT, dt_expressions = []\<rparr>,
               col_constraints = []\<rparr>"

text \<open>The table and the index of the end-to-end example of the specification.\<close>

definition users_table :: Table where
  "users_table =
     \<lparr>table_name = ''users'',
      table_expressions =
        [ColumnDefNode id_col,
         ColumnDefNode \<lparr>col_name = ''name'',
                        col_kind = \<lparr>dt_this = VARCHAR, dt_expressions = [''50'']\<rparr>,
                        col_constraints = [NotNullColumnConstraint False]\<rparr>,
         ConstraintNode \<lparr>const_name = ''pk_users'',
                         const_expressions = [PrimaryKey [''id'']]\<rparr>]\<rparr>"

definition users_name_index :: Index where
  "users_name_index =
     \<lparr>index_name = ''ix_users_name'', index_unique = True, index_table = ''users'',
      index_columns = [''name'']\<rparr>"

definition users_id_index :: Index where
  "users_id_index =
     \<lparr>index_name = ''ix_users_id'', index_unique = False, index_table = ''users'',
      index_columns = [''id'']\<rparr>"

definition orphan_index :: Index where
  "orphan_index =
     \<lparr>index_name = ''ix_ghost'', index_unique = False, index_table = ''ghost'',
      index_columns = [''a'', ''b'']\<rparr>"

definition accounts_table :: Table where
  "accounts_table =
     \<lparr>table_name = ''accounts'',
      table_expressions =
        [ColumnDefNode id_col,
         ColumnDefNode note_col,
         ConstraintNode \<lparr>const_name = ''pk_accounts'',
                         const_expressions = [PrimaryKey [''id'']]\<rparr>]\<rparr>"




text \<open>\<^verbatim>\<open>CONSTRAINT fk_orders_shop FOREIGN KEY (shop_id) REFERENCES shops\<close>: no column list.\<close>

definition fk_bare :: Constraint where
  "fk_bare =
     \<lparr>const_name = ''fk_orders_shop'',
      const_expressions = [ForeignKey [''shop_id''] (TableRef ''shops'') []]\<rparr>"

definition visits_table :: Table where
  "visits_table =
     \<lparr>table_name = ''visits'',
      table_expressions = [ColumnDefNode id_col, ConstraintNode fk_bare]\<rparr>"




text \<open>A table whose only declaration, once rendered, has 77 characters.\<close>

definition series_key :: Constraint where
  "series_key =
     \<lparr>const_name = ''pk_measurements_of_the_long_running_series'',
      const_expressions = [PrimaryKey [''id'']]\<rparr>"

definition series_table :: Table where
  "series_table =
     \<lparr>table_name = ''series'',
      table_expressions = [ColumnDefNode id_col, ConstraintNode series_key]\<rparr>"

definition pk_first :: Constraint where
  "pk_first = \<lparr>const_name = ''pk_a'', const_expressions = [PrimaryKey [''id'']]\<rparr>"

definition pk_second :: Constraint where
  "pk_second = \<lparr>const_name = ''pk_b'', const_expressions = [PrimaryKey [''code'']]\<rparr>"

definition two_keys_table :: Table where
  "two_keys_table =
     \<lparr>table_name = ''items'',
      table_expressions =
        [ColumnDefNode id_col,
         UnnamedConstraintNode (UniqueColumnConstraint [''id'']),
         ConstraintNode pk_first,
         ConstraintNode pk_second]\<rparr>"

definition sqlite_sequence_table :: Table where
  "sqlite_sequence_table =
     \<lparr>table_name = ''sqlite_sequence'',
      table_expressions =
        [ColumnDefNode \<lparr>col_name = ''name'',
                        col_kind = \<lparr>dt_this = OtherType ''BLOB'', dt_expressions = []\<rparr>,
                        col_constraints = [OtherColumnConstraint]\<rparr>,
         ConstraintNode \<lparr>const_name = ''broken'', const_expressions = []\<rparr>]\<rparr>"

definition blob_table :: Table where
  "blob_table =
     \<lparr>table_name = ''files'',
      table_expressions =
        [ColumnDefNode id_col,
         ColumnDefNode \<lparr>col_name = ''content'',
                        col_kind = \<lparr>dt_this = OtherType ''BLOB'', dt_expressions = []\<rparr>,
                        col_constraints = []\<rparr>]\<rparr>"


section \<open>Facts about the loops\<close>

lemma indexes_of_append: "indexes_of (xs @ ys) = indexes_of xs @ indexes_of ys"
  by (induction xs rule: indexes_of.induct) simp_all

lemma tables_of_append: "tables_of (xs @ ys) = tables_of xs @ tables_of ys"
  by (induction xs rule: tables_of.induct) simp_all

lemma get_indexes_setdefault_append:
  "get_indexes (setdefault_append m k v) T =
     (if T = k then get_indexes m T @ [v] else get_indexes m T)"
  by (simp add: get_indexes_def setdefault_append_def)

lemma get_indexes_indexes_loop:
  "get_indexes (indexes_loop m idxs) T =
     get_indexes m T @ map index_decl (filter (\<lambda>i. index_table i = T) idxs)"
proof (induction idxs arbitrary: m)
  case Nil
  then show ?case by simp
next
  case (Cons i idxs)
  then show ?case by (auto simp: get_indexes_setdefault_append)
qed

lemma get_indexes_empty: "get_indexes Map.empty T = []"
  by (simp add: get_indexes_def)

lemma table_lines_unfold:
  "table_lines capitalize table_indexes expr =
     (case constraints_loop ([], []) (find_all_Constraint (table_expressions expr)) of
        Inl e \<Rightarrow> Inl e
      | Inr st \<Rightarrow>
          (case columns_loop (fst st) (find_all_ColumnDef (table_expressions expr)) of
             Inl e \<Rightarrow> Inl e
           | Inr col_lines \<Rightarrow>
               Inr (table_head capitalize (table_name expr) @
                    render_table_args (snd st @ get_indexes table_indexes (table_name expr)) @
                    col_lines @ ['''', ''''])))"
proof (cases "constraints_loop ([], []) (find_all_Constraint (table_expressions expr))")
  case (Inl e)
  then show ?thesis by (simp add: table_lines_def Let_def create_expressions_def)
next
  case (Inr st)
  obtain pk ta where st: "st = (pk, ta)" by (cases st)
  show ?thesis
    by (cases "columns_loop pk (find_all_ColumnDef (table_expressions expr))")
       (simp_all add: table_lines_def Let_def create_expressions_def Inr st)
qed

lemma table_lines_cong:
  "get_indexes m1 (table_name t) = get_indexes m2 (table_name t) \<Longrightarrow>
   table_lines capitalize m1 t = table_lines capitalize m2 t"
  by (simp add: table_lines_unfold split: sum.splits)

lemma tables_loop_cong:
  "(\<And>t. t \<in> set ts \<Longrightarrow> \<not> startswith (table_name t) ''sqlite_'' \<Longrightarrow>
      get_indexes m1 (table_name t) = get_indexes m2 (table_name t)) \<Longrightarrow>
   tables_loop capitalize m1 lines ts = tables_loop capitalize m2 lines ts"
proof (induction ts arbitrary: lines)
  case Nil
  then show ?case by simp
next
  case (Cons t ts)
  have rest: "tables_loop capitalize m1 ls ts = tables_loop capitalize m2 ls ts" for ls
    by (rule Cons.IH) (simp_all add: Cons.prems)
  show ?case
  proof (cases "startswith (table_name t) ''sqlite_''")
    case True
    then show ?thesis by (simp add: rest)
  next
    case False
    have "get_indexes m1 (table_name t) = get_indexes m2 (table_name t)"
      by (rule Cons.prems) (simp_all add: False)
    then have "table_lines capitalize m1 t = table_lines capitalize m2 t"
      by (rule table_lines_cong)
    with False show ?thesis by (simp add: rest split: sum.splits)
  qed
qed


lemma translate_lines_cong:
  assumes "list_all is_Create a = list_all is_Create b"
    and "list_all kind_is_table_or_index a = list_all kind_is_table_or_index b"
    and "tables_of a = tables_of b"
    and "\<And>t. t \<in> set (tables_of b) \<Longrightarrow> \<not> startswith (table_name t) ''sqlite_'' \<Longrightarrow>
           get_indexes (indexes_loop Map.empty (indexes_of a)) (table_name t) =
           get_indexes (indexes_loop Map.empty (indexes_of b)) (table_name t)"
  shows "translate_lines capitalize a = translate_lines capitalize b"
proof -
  have "tables_loop capitalize (indexes_loop Map.empty (indexes_of a)) [] (tables_of b) =
        tables_loop capitalize (indexes_loop Map.empty (indexes_of b)) [] (tables_of b)"
    by (rule tables_loop_cong) (rule assms(4))
  then show ?thesis
    unfolding translate_lines_def Let_def assms(1) assms(2) assms(3) by simp
qed

lemma convert_cong:
  "translate_lines capitalize a = translate_lines capitalize b \<Longrightarrow>
   translate capitalize a = translate capitalize b \<and>
   convert_sqlite_to_orm capitalize a output_path fs = convert_sqlite_to_orm capitalize b output_path fs"
  by (simp add: translate_def convert_sqlite_to_orm_def)





lemma constraint_step_foreign_key:
  assumes "const_expressions const = [ForeignKey idents (SchemaRef ref_table ref_idents) opts]"
  shows "constraint_step (primary_key, table_args) const =
     (case options_loop '''' opts of
        Inl e \<Rightarrow> Inl e
      | Inr option_str \<Rightarrow>
          Inr (primary_key,
               table_args @
                 [''ForeignKeyConstraint(['' @ join '', '' (map quoted idents) @ ''], ['' @
                  join '', '' (map (\<lambda>ident. quoted (ref_table @ ''.'' @ ident)) ref_idents) @
                  ''], name='' @ quoted (const_name const) @ option_str @ '')'']))"
  using assms by (simp add: quoted_def split: sum.splits)



lemma table_lines_constraints_fail:
  "constraints_loop ([], []) (find_all_Constraint (table_expressions t)) = Inl e \<Longrightarrow>
   \<exists>e'. table_lines capitalize table_indexes t = Inl e'"
  by (simp add: table_lines_unfold)

lemma tables_loop_fails:
  "t \<in> set ts \<Longrightarrow> \<not> startswith (table_name t) ''sqlite_'' \<Longrightarrow>
   table_lines capitalize table_indexes t = Inl e \<Longrightarrow>
   \<exists>e'. tables_loop capitalize table_indexes lines ts = Inl e'"
proof (induction ts arbitrary: lines)
  case Nil
  then show ?case by simp
next
  case (Cons a ts)
  show ?case
  proof (cases "a = t")
    case True
    then show ?thesis using Cons.prems by simp
  next
    case False
    then have "t \<in> set ts" using Cons.prems(1) by simp
    then have "\<exists>e'. tables_loop capitalize table_indexes ls ts = Inl e'" for ls
      using Cons.IH Cons.prems(2,3) by blast
    then show ?thesis by (simp split: sum.splits)
  qed
qed

lemma tables_of_member: "CreateTable t \<in> set exprs \<Longrightarrow> t \<in> set (tables_of exprs)"
  by (induction exprs rule: tables_of.induct) auto

lemma translate_fails:
  assumes "CreateTable t \<in> set exprs" "\<not> startswith (table_name t) ''sqlite_''"
    and "table_lines capitalize (indexes_loop Map.empty (indexes_of exprs)) t = Inl e"
  shows "\<exists>e'. translate capitalize exprs = Inl e'"
proof -
  have "\<exists>e'. tables_loop capitalize (indexes_loop Map.empty (indexes_of exprs)) [] (tables_of exprs) = Inl e'"
    using assms tables_of_member tables_loop_fails by blast
  then have "\<exists>e'. translate_lines capitalize exprs = Inl e'"
    by (auto simp: translate_lines_def Let_def)
  then show ?thesis
    by (auto simp: translate_def)
qed


lemma render_inline_length:
  assumes "table_args \<noteq> []" "length (join '', '' table_args) + 23 \<le> 100"
  shows "\<exists>line. render_table_args table_args = [line] \<and>
                length line = length (join '', '' table_args) + 24"
  using assms by (simp add: render_table_args_def MAX_LINE_LENGTH_def)




lemma table_lines_success:
  assumes "table_lines capitalize table_indexes t = Inr ls"
    and "constraints_loop ([], []) (find_all_Constraint (table_expressions t)) = Inr (primary_key, table_args)"
  shows "\<exists>col_lines.
           columns_loop primary_key (find_all_ColumnDef (table_expressions t)) = Inr col_lines \<and>
           ls = table_head capitalize (table_name t) @
                render_table_args (table_args @ get_indexes table_indexes (table_name t)) @
                col_lines @ ['''', '''']"
  using assms by (auto simp: table_lines_unfold split: if_splits sum.splits)


lemma constraint_step_primary_key:
  assumes "const_expressions const = [PrimaryKey cols]"
  shows "constraint_step (primary_key, table_args) const =
     (if primary_key \<noteq> [] then Inl (ValueError ''Multiple primary keys found'')
      else Inr (cols,
                table_args @
                  [''PrimaryKeyConstraint('' @ join '', '' (map quoted cols) @ '', name='' @
                   quoted (const_name const) @ '')'']))"
  using assms by (simp add: quoted_def)

lemma constraint_step_keeps_key:
  assumes "constraint_step (primary_key, table_args) const = Inr (primary_key', table_args')"
    and "primary_key \<noteq> []"
  shows "primary_key' \<noteq> []"
  using assms
  by (auto simp: Let_def split: if_splits ConstraintKind.splits ReferenceThis.splits sum.splits)

lemma constraints_loop_keeps_key:
  "constraints_loop (primary_key, table_args) cs = Inr (primary_key', table_args') \<Longrightarrow>
   primary_key \<noteq> [] \<Longrightarrow> primary_key' \<noteq> []"
proof (induction cs arbitrary: primary_key table_args)
  case Nil
  then show ?case by simp
next
  case (Cons c cs)
  from Cons.prems(1) obtain pk1 ta1 where
    step: "constraint_step (primary_key, table_args) c = Inr (pk1, ta1)" and
    rest: "constraints_loop (pk1, ta1) cs = Inr (primary_key', table_args')"
    by (cases "constraint_step (primary_key, table_args) c") (auto simp del: constraint_step.simps)
  have "pk1 \<noteq> []"
    using constraint_step_keeps_key [OF step Cons.prems(2)] .
  then show ?case
    using Cons.IH [OF rest] by simp
qed

lemma constraints_loop_key_recorded:
  "constraints_loop (primary_key, table_args) cs = Inr (primary_key', table_args') \<Longrightarrow>
   c1 \<in> set cs \<Longrightarrow> const_expressions c1 = [PrimaryKey cols1] \<Longrightarrow> cols1 \<noteq> [] \<Longrightarrow>
   primary_key' \<noteq> []"
proof (induction cs arbitrary: primary_key table_args)
  case Nil
  then show ?case by simp
next
  case (Cons c cs)
  from Cons.prems(1) obtain pk1 ta1 where
    step: "constraint_step (primary_key, table_args) c = Inr (pk1, ta1)" and
    rest: "constraints_loop (pk1, ta1) cs = Inr (primary_key', table_args')"
    by (cases "constraint_step (primary_key, table_args) c") (auto simp del: constraint_step.simps)
  show ?case
  proof (cases "c = c1")
    case True
    have "pk1 = cols1"
      using step constraint_step_primary_key [of c1 cols1 primary_key table_args] Cons.prems(3) True
      by (simp del: constraint_step.simps split: if_splits)
    then show ?thesis
      using constraints_loop_keeps_key [OF rest] Cons.prems(4) by simp
  next
    case False
    then have "c1 \<in> set cs" using Cons.prems(2) by simp
    then show ?thesis
      using Cons.IH [OF rest _ Cons.prems(3) Cons.prems(4)] by simp
  qed
qed

lemma constraints_loop_append:
  "constraints_loop st (xs @ ys) =
     (case constraints_loop st xs of Inl e \<Rightarrow> Inl e | Inr st' \<Rightarrow> constraints_loop st' ys)"
  by (induction xs arbitrary: st) (simp_all del: constraint_step.simps split: sum.splits)

lemma tables_loop_append:
  "tables_loop capitalize table_indexes lines (xs @ ys) =
     (case tables_loop capitalize table_indexes lines xs of
        Inl e \<Rightarrow> Inl e
      | Inr ls \<Rightarrow> tables_loop capitalize table_indexes ls ys)"
  by (induction xs arbitrary: lines) (simp_all split: sum.splits)

lemma second_key_fails:
  assumes "c1 \<in> set cs1" "const_expressions c1 = [PrimaryKey cols1]" "cols1 \<noteq> []"
    and "const_expressions c2 = [PrimaryKey cols2]"
  shows "constraints_loop ([], []) (cs1 @ [c2] @ cs2) =
     (case constraints_loop ([], []) cs1 of
        Inl e \<Rightarrow> Inl e
      | Inr st \<Rightarrow> Inl (ValueError ''Multiple primary keys found''))"
proof (cases "constraints_loop ([], []) cs1")
  case (Inl e)
  then show ?thesis by (simp add: constraints_loop_append)
next
  case (Inr st)
  obtain pk ta where st: "st = (pk, ta)" by (cases st)
  have "pk \<noteq> []"
    using constraints_loop_key_recorded [OF Inr [unfolded st] assms(1,2,3)] .
  then have "constraint_step (pk, ta) c2 = Inl (ValueError ''Multiple primary keys found'')"
    by (simp add: constraint_step_primary_key [OF assms(4)] del: constraint_step.simps)
  then show ?thesis
    by (simp add: constraints_loop_append Inr st del: constraint_step.simps)
qed


lemma second_key_after_empty_key:
  assumes "const_expressions c1 = [PrimaryKey []]" "const_expressions c2 = [PrimaryKey cols2]"
  shows "\<exists>table_args. constraints_loop ([], []) [c1, c2] = Inr (cols2, table_args)"
  by (simp add: constraint_step_primary_key [OF assms(1)] constraint_step_primary_key [OF assms(2)]
      del: constraint_step.simps)


lemma not_class_line:
  "line = [] \<or> hd line = CHR '' '' \<Longrightarrow> \<not> startswith line ''class ''"
  by (cases line) (auto simp: startswith_def)

lemma render_table_args_indented:
  "line \<in> set (render_table_args table_args) \<Longrightarrow> hd line = CHR '' ''"
  by (auto simp: render_table_args_def split: if_splits)

lemma column_line_indented:
  "column_line primary_key col = Inr line \<Longrightarrow> hd line = CHR '' ''"
  by (auto simp: column_line_def Let_def split: sum.splits prod.splits)

lemma columns_loop_indented:
  "columns_loop primary_key cols = Inr col_lines \<Longrightarrow> line \<in> set col_lines \<Longrightarrow>
   hd line = CHR '' ''"
proof (induction cols arbitrary: col_lines)
  case Nil
  then show ?case by simp
next
  case (Cons c cols)
  from Cons.prems(1) obtain l rest where
    l: "column_line primary_key c = Inr l" and
    rest: "columns_loop primary_key cols = Inr rest" and
    all: "col_lines = l # rest"
    by (auto split: sum.splits)
  show ?case
    using Cons.prems(2) all column_line_indented [OF l] Cons.IH [OF rest] by auto
qed

lemma table_lines_block:
  assumes "table_lines capitalize table_indexes t = Inr block"
  shows "\<exists>rest. block = class_line capitalize (table_name t) # rest \<and>
                (\<forall>line \<in> set rest. \<not> startswith line ''class '')"
proof -
  obtain st where st: "constraints_loop ([], []) (find_all_Constraint (table_expressions t)) = Inr st"
    using assms by (auto simp: table_lines_unfold split: if_splits sum.splits)
  obtain primary_key table_args where "st = (primary_key, table_args)" by (cases st)
  then obtain col_lines where
    cols: "columns_loop primary_key (find_all_ColumnDef (table_expressions t)) = Inr col_lines" and
    block: "block = table_head capitalize (table_name t) @
              render_table_args (table_args @ get_indexes table_indexes (table_name t)) @
              col_lines @ ['''', '''']"
    using table_lines_success [OF assms] st by blast
  let ?rest = "tl (table_head capitalize (table_name t)) @
              render_table_args (table_args @ get_indexes table_indexes (table_name t)) @
              col_lines @ ['''', '''']"
  have "block = class_line capitalize (table_name t) # ?rest"
    by (simp add: block table_head_def)
  moreover have "line = [] \<or> hd line = CHR '' ''" if "line \<in> set ?rest" for line
    using that render_table_args_indented columns_loop_indented [OF cols]
    by (auto simp: table_head_def)
  ultimately show ?thesis
    using not_class_line by blast
qed

lemma tables_loop_acc:
  "tables_loop capitalize table_indexes lines ts =
     (case tables_loop capitalize table_indexes [] ts of
        Inl e \<Rightarrow> Inl e
      | Inr ls \<Rightarrow> Inr (lines @ ls))"
proof (induction ts arbitrary: lines)
  case Nil
  then show ?case by simp
next
  case (Cons t ts)
  note IH = Cons.IH
  show ?case
  proof (cases "startswith (table_name t) ''sqlite_''")
    case True
    then show ?thesis by (simp add: IH [of lines])
  next
    case False
    show ?thesis
    proof (cases "table_lines capitalize table_indexes t")
      case (Inl e)
      then show ?thesis using False by simp
    next
      case (Inr b)
      show ?thesis
        using False Inr IH [of "lines @ b"] IH [of b]
        by (simp split: sum.splits)
    qed
  qed
qed

lemma tables_loop_blocks:
  "tables_loop capitalize table_indexes [] ts = Inr ls \<Longrightarrow>
   \<exists>blocks. ls = concat blocks \<and>
     list_all2 (\<lambda>t block. table_lines capitalize table_indexes t = Inr block)
       (filter (\<lambda>t. \<not> startswith (table_name t) ''sqlite_'') ts) blocks"
proof (induction ts arbitrary: ls)
  case Nil
  then show ?case by simp
next
  case (Cons t ts)
  show ?case
  proof (cases "startswith (table_name t) ''sqlite_''")
    case True
    then show ?thesis using Cons by simp
  next
    case False
    obtain b where b: "table_lines capitalize table_indexes t = Inr b"
      using Cons.prems False by (cases "table_lines capitalize table_indexes t") simp_all
    have "tables_loop capitalize table_indexes b ts = Inr ls"
      using Cons.prems False b by simp
    then obtain ls' where rest: "tables_loop capitalize table_indexes [] ts = Inr ls'" and ls: "ls = b @ ls'"
      by (subst (asm) tables_loop_acc) (auto split: sum.splits)
    obtain blocks where "ls' = concat blocks"
      "list_all2 (\<lambda>t block. table_lines capitalize table_indexes t = Inr block)
         (filter (\<lambda>t. \<not> startswith (table_name t) ''sqlite_'') ts) blocks"
      using Cons.IH [OF rest] by blast
    then have "ls = concat (b # blocks) \<and>
      list_all2 (\<lambda>t block. table_lines capitalize table_indexes t = Inr block)
         (filter (\<lambda>t. \<not> startswith (table_name t) ''sqlite_'') (t # ts)) (b # blocks)"
      using False b ls by simp
    then show ?thesis by blast
  qed
qed


lemma convert_result:
  "convert_sqlite_to_orm capitalize exprs output_path fs =
     (case translate_lines capitalize exprs of
        Inl e \<Rightarrow> (Inl e, fs)
      | Inr lines \<Rightarrow> (Inr (), fs @ [(output_path, header @ join nl lines)]))"
  by (simp add: convert_sqlite_to_orm_def translate_def split: sum.splits)


text \<open>The model on the table and index of the specification's end-to-end example.\<close>

lemma users_example:
  "translate_lines ascii_capitalize [CreateTable users_table, CreateIndex users_name_index] =
     Inr (table_head ascii_capitalize ''users'' @
          [''    __table_args__ = ('',
           ''        PrimaryKeyConstraint('' @ quoted ''id'' @ '', name='' @ quoted ''pk_users'' @ ''),'',
           ''        Index('' @ quoted ''ix_users_name'' @ '', '' @ quoted ''name'' @ '', unique=True),'',
           ''    )'',
           ''    id: Mapped[int]'',
           ''    name: Mapped[str] = mapped_column(String(50))'',
           '''',
           ''''])"
  by (simp add: translate_lines_def users_table_def users_name_index_def table_lines_unfold
      setdefault_append_def get_indexes_def index_decl_def quoted_def startswith_def
      render_table_args_def MAX_LINE_LENGTH_def column_line_def map_type_def parse_varchar_def
      isdigit_def isdigit_char_def id_col_def)

lemma class_name_example:
  "class_name ascii_capitalize ''molecule_dictionary'' = ''MoleculeDictionary''"
  by (simp add: class_name_def upper_char_def lower_char_def)

lemma map_type_accepted:
  "(\<exists>p. map_type kind = Inr p) \<longleftrightarrow> accepted_type (dt_this kind) (dt_expressions kind)"
proof (cases "dt_this kind")
  case VARCHAR
  show ?thesis
  proof (cases "dt_expressions kind")
    case Nil
    then show ?thesis using VARCHAR by (simp add: map_type_def parse_varchar_def)
  next
    case (Cons n ns)
    then show ?thesis using VARCHAR
      by (cases ns) (simp_all add: map_type_def parse_varchar_def)
  qed
next
  case DECIMAL
  show ?thesis
  proof (cases "dt_expressions kind")
    case Nil
    then show ?thesis using DECIMAL by (simp add: map_type_def parse_decimal_def)
  next
    case (Cons p ps)
    note outer = Cons
    show ?thesis
    proof (cases ps)
      case Nil
      then show ?thesis using DECIMAL outer by (simp add: map_type_def parse_decimal_def)
    next
      case (Cons s ss)
      then show ?thesis using DECIMAL outer
        by (cases ss) (auto simp: map_type_def parse_decimal_def)
    qed
  qed
qed (simp_all add: map_type_def)

lemma col_constraints_loop_accepted:
  "(\<exists>r. col_constraints_loop b cs = Inr r) \<longleftrightarrow> list_all is_not_null cs"
  by (induction b cs rule: col_constraints_loop.induct) simp_all

lemma column_line_accepted:
  "(\<exists>line. column_line primary_key col = Inr line) \<longleftrightarrow> accepted_column col"
proof -
  have "(\<exists>line. column_line primary_key col = Inr line) \<longleftrightarrow>
        (\<exists>p. map_type (col_kind col) = Inr p) \<and>
        (\<exists>r. col_constraints_loop True (col_constraints col) = Inr r)"
    by (auto simp: column_line_def Let_def split: sum.splits prod.splits)
  then show ?thesis
    using map_type_accepted [of "col_kind col"]
    by (auto simp: accepted_column_def col_constraints_loop_accepted)
qed

lemma columns_loop_accepted:
  "(\<exists>col_lines. columns_loop primary_key cols = Inr col_lines) \<longleftrightarrow> list_all accepted_column cols"
proof (induction cols)
  case Nil
  then show ?case by simp
next
  case (Cons c cols)
  have "(\<exists>col_lines. columns_loop primary_key (c # cols) = Inr col_lines) \<longleftrightarrow>
        (\<exists>line. column_line primary_key c = Inr line) \<and>
        (\<exists>rest. columns_loop primary_key cols = Inr rest)"
    by (auto split: sum.splits)
  then show ?case
    using Cons.IH by (simp add: column_line_accepted)
qed

lemma constraint_step_accepted:
  "(case accepted_constraint (primary_key \<noteq> []) (const_expressions c) of
      None \<Rightarrow> \<exists>e. constraint_step (primary_key, table_args) c = Inl e
    | Some recorded \<Rightarrow>
        \<exists>primary_key' table_args'.
          constraint_step (primary_key, table_args) c = Inr (primary_key', table_args') \<and>
          (primary_key' \<noteq> []) = recorded)"
proof (cases "const_expressions c")
  case Nil
  then show ?thesis by simp
next
  case (Cons k ks)
  show ?thesis
  proof (cases ks)
    case (Cons k' ks')
    then show ?thesis using \<open>const_expressions c = k # ks\<close> by (cases k) simp_all
  next
    case Nil
    then have single: "const_expressions c = [k]"
      using \<open>const_expressions c = k # ks\<close> by simp
    show ?thesis
    proof (cases k)
      case (PrimaryKey cols)
      then show ?thesis using single by (simp add: Let_def)
    next
      case (UniqueColumnConstraint idents)
      then show ?thesis using single by (simp add: Let_def)
    next
      case (CheckColumnConstraint t)
      then show ?thesis using single by simp
    next
      case (ForeignKey idents ref opts)
      show ?thesis
      proof (cases ref)
        case (TableRef n)
        then show ?thesis using single ForeignKey by simp
      next
        case (SchemaRef ref_table ref_idents)
        have opts: "(\<exists>e. options_loop option_str opts = Inl e) \<longleftrightarrow>
                    \<not> list_all (\<lambda>opt. opt = ''ON DELETE CASCADE'') opts" for option_str
          by (induction opts arbitrary: option_str) simp_all
        show ?thesis
        proof (cases "options_loop '''' opts")
          case (Inl e)
          then have "\<not> list_all (\<lambda>opt. opt = ''ON DELETE CASCADE'') opts"
            using opts by blast
          then show ?thesis
            using single ForeignKey SchemaRef Inl
            by (simp add: constraint_step_foreign_key del: constraint_step.simps)
        next
          case (Inr option_str)
          then have "list_all (\<lambda>opt. opt = ''ON DELETE CASCADE'') opts"
            using opts [of "''''"] by auto
          then show ?thesis
            using single ForeignKey SchemaRef Inr
            by (simp add: constraint_step_foreign_key del: constraint_step.simps)
        qed
      qed
    next
      case OtherConstraint
      then show ?thesis using single by simp
    qed
  qed
qed

lemma constraints_loop_accepted:
  "(\<exists>st. constraints_loop (primary_key, table_args) cs = Inr st) \<longleftrightarrow>
     accepted_constraints (primary_key \<noteq> []) cs"
proof (induction cs arbitrary: primary_key table_args)
  case Nil
  then show ?case by simp
next
  case (Cons c cs)
  note step = constraint_step_accepted
    [where primary_key = primary_key and c = c and table_args = table_args]
  show ?case
  proof (cases "accepted_constraint (primary_key \<noteq> []) (const_expressions c)")
    case None
    then obtain e where "constraint_step (primary_key, table_args) c = Inl e"
      using step by auto
    then show ?thesis using None by (simp del: constraint_step.simps)
  next
    case (Some recorded)
    then obtain pk1 ta1 where
      one: "constraint_step (primary_key, table_args) c = Inr (pk1, ta1)" and
      flag: "(pk1 \<noteq> []) = recorded"
      using step by auto
    have "(\<exists>st. constraints_loop (pk1, ta1) cs = Inr st) \<longleftrightarrow> accepted_constraints (pk1 \<noteq> []) cs"
      by (rule Cons.IH)
    then show ?thesis
      using Some one flag by (simp del: constraint_step.simps)
  qed
qed

lemma table_lines_accepted:
  "(\<exists>ls. table_lines capitalize table_indexes t = Inr ls) \<longleftrightarrow> accepted_table t"
proof (cases "constraints_loop ([], []) (find_all_Constraint (table_expressions t))")
  case (Inl e)
  then have "\<not> accepted_constraints False (find_all_Constraint (table_expressions t))"
    using constraints_loop_accepted [of "[]" "[]" "find_all_Constraint (table_expressions t)"]
    by simp
  then show ?thesis using Inl by (simp add: table_lines_unfold accepted_table_def)
next
  case (Inr st)
  then have ok: "accepted_constraints False (find_all_Constraint (table_expressions t))"
    using constraints_loop_accepted [of "[]" "[]" "find_all_Constraint (table_expressions t)"]
    by auto
  have "(\<exists>ls. table_lines capitalize table_indexes t = Inr ls) \<longleftrightarrow>
        (\<exists>col_lines. columns_loop (fst st) (find_all_ColumnDef (table_expressions t)) = Inr col_lines)"
    using Inr by (auto simp: table_lines_unfold split: sum.splits)
  then show ?thesis
    by (simp add: columns_loop_accepted accepted_table_def ok)
qed

lemma tables_loop_accepted:
  "(\<exists>ls. tables_loop capitalize table_indexes lines ts = Inr ls) \<longleftrightarrow>
     list_all (\<lambda>t. startswith (table_name t) ''sqlite_'' \<or> accepted_table t) ts"
proof (induction ts arbitrary: lines)
  case Nil
  then show ?case by simp
next
  case (Cons t ts)
  show ?case
  proof (cases "startswith (table_name t) ''sqlite_''")
    case True
    then show ?thesis using Cons.IH by simp
  next
    case False
    show ?thesis
    proof (cases "table_lines capitalize table_indexes t")
      case (Inl e)
      then have "\<not> accepted_table t"
        using table_lines_accepted [of capitalize table_indexes t] by auto
      then show ?thesis using False Inl by simp
    next
      case (Inr b)
      then have "accepted_table t"
        using table_lines_accepted [of capitalize table_indexes t] by auto
      then show ?thesis using False Inr Cons.IH [of "lines @ b"] by simp
    qed
  qed
qed

lemma translate_lines_accepted:
  "(\<exists>ls. translate_lines capitalize exprs = Inr ls) \<longleftrightarrow> accepted_input exprs"
  by (auto simp: translate_lines_def Let_def accepted_input_def tables_loop_accepted)




section \<open>The type mapping of a column\<close>






section \<open>At most one primary key\<close>

text \<open>
  C5. Take a table that is translated and whose constraints, as found by
  \<^verbatim>\<open>find_all(Constraint)\<close>, hold a \<^verbatim>\<open>PRIMARY KEY\<close> constraint with at least one column
  and, later in the list, a second \<^verbatim>\<open>PRIMARY KEY\<close> constraint. Then the whole run fails
  and nothing is written; and when the run gets as far as the second constraint (the
  statement kinds are accepted, the earlier tables and the earlier constraints of this
  table raise nothing), the error is the \<^verbatim>\<open>ValueError\<close> with the message
  \<^verbatim>\<open>Multiple primary keys found\<close>.
\<close>

theorem multiple_primary_keys:
  assumes "CreateTable t \<in> set exprs" "\<not> startswith (table_name t) ''sqlite_''"
    and "find_all_Constraint (table_expressions t) = cs1 @ [c2] @ cs2"
    and "c1 \<in> set cs1" "const_expressions c1 = [PrimaryKey cols1]" "cols1 \<noteq> []"
    and "const_expressions c2 = [PrimaryKey cols2]"
  shows "(\<exists>e. translate capitalize exprs = Inl e \<and> convert_sqlite_to_orm capitalize exprs output_path fs = (Inl e, fs))
       \<and> (list_all is_Create exprs \<and> list_all kind_is_table_or_index exprs \<and>
          tables_of exprs = ts_before @ [t] @ ts_after \<and>
          tables_loop capitalize (indexes_loop Map.empty (indexes_of exprs)) [] ts_before = Inr lines \<and>
          constraints_loop ([], []) cs1 = Inr st \<longrightarrow>
          translate capitalize exprs = Inl (ValueError ''Multiple primary keys found'') \<and>
          convert_sqlite_to_orm capitalize exprs output_path fs =
            (Inl (ValueError ''Multiple primary keys found''), fs))"
proof -
  let ?idx = "indexes_loop Map.empty (indexes_of exprs)"
  note loop = second_key_fails [OF assms(4,5,6,7), of cs2, folded assms(3)]
  have "\<exists>e. constraints_loop ([], []) (find_all_Constraint (table_expressions t)) = Inl e"
    by (simp add: loop split: sum.splits)
  then obtain e0 where "table_lines capitalize ?idx t = Inl e0"
    using table_lines_constraints_fail by blast
  then obtain e where "translate capitalize exprs = Inl e"
    using translate_fails [OF assms(1,2)] by blast
  then have always: "\<exists>e. translate capitalize exprs = Inl e \<and>
      convert_sqlite_to_orm capitalize exprs output_path fs = (Inl e, fs)"
    by (simp add: convert_sqlite_to_orm_def)
  have reached: "translate capitalize exprs = Inl (ValueError ''Multiple primary keys found'') \<and>
          convert_sqlite_to_orm capitalize exprs output_path fs =
            (Inl (ValueError ''Multiple primary keys found''), fs)"
    if checks: "list_all is_Create exprs" "list_all kind_is_table_or_index exprs"
      and tabs: "tables_of exprs = ts_before @ [t] @ ts_after"
      and earlier: "tables_loop capitalize ?idx [] ts_before = Inr lines"
      and first: "constraints_loop ([], []) cs1 = Inr st"
  proof -
    have "constraints_loop ([], []) (find_all_Constraint (table_expressions t)) =
        Inl (ValueError ''Multiple primary keys found'')"
      by (simp add: loop first)
    then have "table_lines capitalize ?idx t = Inl (ValueError ''Multiple primary keys found'')"
      by (simp add: table_lines_unfold)
    then have "tables_loop capitalize ?idx [] (ts_before @ [t] @ ts_after) =
        Inl (ValueError ''Multiple primary keys found'')"
      by (simp add: tables_loop_append earlier assms(2))
    then have "translate_lines capitalize exprs = Inl (ValueError ''Multiple primary keys found'')"
      by (simp add: translate_lines_def checks tabs)
    then show ?thesis
      by (simp add: translate_def convert_sqlite_to_orm_def)
  qed
  show ?thesis
    using always reached by blast
qed

theorem multiple_primary_keys_witness:
  "CreateTable two_keys_table \<in> set [CreateTable accounts_table, CreateTable two_keys_table]
   \<and> \<not> startswith (table_name two_keys_table) ''sqlite_''
   \<and> find_all_Constraint (table_expressions two_keys_table) = [pk_first] @ [pk_second] @ []
   \<and> translate ascii_capitalize [CreateTable accounts_table, CreateTable two_keys_table] =
       Inl (ValueError ''Multiple primary keys found'')
   \<and> convert_sqlite_to_orm ascii_capitalize
         [CreateTable accounts_table, CreateTable two_keys_table] ''models.py'' [] =
       (Inl (ValueError ''Multiple primary keys found''), [])"
proof -
  let ?exprs = "[CreateTable accounts_table, CreateTable two_keys_table]"
  have a1: "CreateTable two_keys_table \<in> set ?exprs"
    by simp
  have a2: "\<not> startswith (table_name two_keys_table) ''sqlite_''"
    by (simp add: two_keys_table_def startswith_def)
  have a3: "find_all_Constraint (table_expressions two_keys_table) = [pk_first] @ [pk_second] @ []"
    by (simp add: two_keys_table_def)
  have a4: "pk_first \<in> set [pk_first]" by simp
  have a5: "const_expressions pk_first = [PrimaryKey [''id'']]" by (simp add: pk_first_def)
  have a6: "[''id''] \<noteq> []" by simp
  have a7: "const_expressions pk_second = [PrimaryKey [''code'']]" by (simp add: pk_second_def)
  have b1: "list_all is_Create ?exprs"
    and b2: "list_all kind_is_table_or_index ?exprs"
    and b3: "tables_of ?exprs = [accounts_table] @ [two_keys_table] @ []"
    by simp_all
  obtain lines where b4: "tables_loop ascii_capitalize
       (indexes_loop Map.empty (indexes_of ?exprs)) [] [accounts_table] = Inr lines"
    by (simp add: table_lines_unfold accounts_table_def id_col_def note_col_def column_line_def
        map_type_def startswith_def)
  obtain st where b6: "constraints_loop ([], []) [pk_first] = Inr st"
    by (simp add: pk_first_def)
  show ?thesis
    using multiple_primary_keys
      [OF a1 a2 a3 a4 a5 a6 a7, where capitalize = ascii_capitalize and
        output_path = "''models.py''" and fs = "[]" and ts_before = "[accounts_table]" and
        ts_after = "[]" and lines = lines and st = st]
      a1 a2 a3 b1 b2 b3 b4 b6
    by blast
qed


section \<open>One class block per table\<close>

text \<open>
  C1. When the translation succeeds, the lines after the header are the concatenation
  of one block per table statement whose name does not start with \<^verbatim>\<open>sqlite_\<close>, in the
  order of the table statements; each block is what the table's translation gives, its
  first line is \<^verbatim>\<open>class Name(Base):\<close> for the class name of that table, and no other
  line of it starts with \<^verbatim>\<open>class\<close>. A table statement whose name starts with
  \<^verbatim>\<open>sqlite_\<close> changes nothing, whatever it contains: with or without it the result,
  text or error, is the same.
\<close>

theorem one_class_block_per_table:
  "(\<forall>doc. translate capitalize exprs = Inr doc \<longrightarrow>
      (\<exists>blocks.
         doc = header @ join nl (concat blocks) \<and>
         list_all2
           (\<lambda>t block.
              table_lines capitalize (indexes_loop Map.empty (indexes_of exprs)) t = Inr block \<and>
              (\<exists>rest. block = (''class '' @ class_name capitalize (table_name t) @ ''(Base):'') # rest \<and>
                      (\<forall>line \<in> set rest. \<not> startswith line ''class '')))
           (filter (\<lambda>t. \<not> startswith (table_name t) ''sqlite_'') (tables_of exprs))
           blocks))
   \<and> (startswith (table_name s) ''sqlite_'' \<longrightarrow>
        translate capitalize (xs @ [CreateTable s] @ ys) = translate capitalize (xs @ ys) \<and>
        convert_sqlite_to_orm capitalize (xs @ [CreateTable s] @ ys) output_path fs =
          convert_sqlite_to_orm capitalize (xs @ ys) output_path fs)"
proof -
  let ?idx = "indexes_loop Map.empty (indexes_of exprs)"
  let ?kept = "filter (\<lambda>t. \<not> startswith (table_name t) ''sqlite_'') (tables_of exprs)"
  have blocks: "\<exists>blocks.
         doc = header @ join nl (concat blocks) \<and>
         list_all2
           (\<lambda>t block.
              table_lines capitalize ?idx t = Inr block \<and>
              (\<exists>rest. block = (''class '' @ class_name capitalize (table_name t) @ ''(Base):'') # rest \<and>
                      (\<forall>line \<in> set rest. \<not> startswith line ''class '')))
           ?kept blocks"
    if tr: "translate capitalize exprs = Inr doc" for doc
  proof -
    obtain ls where ls: "translate_lines capitalize exprs = Inr ls" and doc: "doc = header @ join nl ls"
      using tr by (auto simp: translate_def split: sum.splits)
    have "tables_loop capitalize ?idx [] (tables_of exprs) = Inr ls"
      using ls by (auto simp: translate_lines_def Let_def split: if_splits)
    then obtain bs where bs: "ls = concat bs"
      "list_all2 (\<lambda>t block. table_lines capitalize ?idx t = Inr block) ?kept bs"
      using tables_loop_blocks by blast
    have "list_all2
           (\<lambda>t block.
              table_lines capitalize ?idx t = Inr block \<and>
              (\<exists>rest. block = (''class '' @ class_name capitalize (table_name t) @ ''(Base):'') # rest \<and>
                      (\<forall>line \<in> set rest. \<not> startswith line ''class '')))
           ?kept bs"
      using bs(2) by (rule list_all2_mono) (use table_lines_block [unfolded class_line_def] in blast)
    then show ?thesis
      using doc bs(1) by blast
  qed
  have skipped: "translate capitalize (xs @ [CreateTable s] @ ys) = translate capitalize (xs @ ys) \<and>
        convert_sqlite_to_orm capitalize (xs @ [CreateTable s] @ ys) output_path fs =
          convert_sqlite_to_orm capitalize (xs @ ys) output_path fs"
    if pre: "startswith (table_name s) ''sqlite_''"
  proof (rule convert_cong)
    have "tables_loop capitalize m [] (tables_of (xs @ [CreateTable s] @ ys)) =
          tables_loop capitalize m [] (tables_of (xs @ ys))" for m
      by (simp add: tables_of_append tables_loop_append pre split: sum.splits)
    then show "translate_lines capitalize (xs @ [CreateTable s] @ ys) = translate_lines capitalize (xs @ ys)"
      by (simp add: translate_lines_def Let_def indexes_of_append)
  qed
  show ?thesis
    using blocks skipped by blast
qed


theorem one_class_block_per_table_witness:
  "startswith (table_name sqlite_sequence_table) ''sqlite_''
   \<and> translate ascii_capitalize ([CreateTable accounts_table] @ [CreateTable sqlite_sequence_table] @
                 [CreateTable users_table]) =
       translate ascii_capitalize ([CreateTable accounts_table] @ [CreateTable users_table])
   \<and> (\<exists>doc blocks.
         translate ascii_capitalize [CreateTable accounts_table, CreateTable sqlite_sequence_table,
                    CreateTable users_table] = Inr doc \<and>
         doc = header @ join nl (concat blocks) \<and>
         list_all2
           (\<lambda>t block. \<exists>rest. block = (''class '' @ class_name ascii_capitalize (table_name t) @
                                              ''(Base):'') # rest \<and>
                                (\<forall>line \<in> set rest. \<not> startswith line ''class ''))
           [accounts_table, users_table] blocks)"
proof -
  let ?exprs = "[CreateTable accounts_table, CreateTable sqlite_sequence_table,
                 CreateTable users_table]"
  have pre: "startswith (table_name sqlite_sequence_table) ''sqlite_''"
    by (simp add: sqlite_sequence_table_def startswith_def)
  have kept: "filter (\<lambda>t. \<not> startswith (table_name t) ''sqlite_'') (tables_of ?exprs) =
      [accounts_table, users_table]"
    by (simp add: sqlite_sequence_table_def accounts_table_def users_table_def startswith_def)
  have "\<exists>ls. translate_lines ascii_capitalize ?exprs = Inr ls"
    by (simp add: translate_lines_def sqlite_sequence_table_def accounts_table_def users_table_def
        id_col_def note_col_def startswith_def table_lines_unfold column_line_def map_type_def
        parse_varchar_def isdigit_def isdigit_char_def)
  then obtain doc where doc: "translate ascii_capitalize ?exprs = Inr doc"
    by (auto simp: translate_def)
  obtain blocks where
    "doc = header @ join nl (concat blocks)"
    "list_all2
       (\<lambda>t block.
          table_lines ascii_capitalize (indexes_loop Map.empty (indexes_of ?exprs)) t = Inr block \<and>
          (\<exists>rest. block = (''class '' @ class_name ascii_capitalize (table_name t) @
                            ''(Base):'') # rest \<and>
                  (\<forall>line \<in> set rest. \<not> startswith line ''class '')))
       [accounts_table, users_table] blocks"
    using one_class_block_per_table
      [where capitalize = ascii_capitalize and exprs = ?exprs, THEN conjunct1, rule_format, OF doc]
    unfolding kept by blast
  then have "doc = header @ join nl (concat blocks) \<and>
    list_all2
       (\<lambda>t block. \<exists>rest. block = (''class '' @ class_name ascii_capitalize (table_name t) @
                                          ''(Base):'') # rest \<and>
                            (\<forall>line \<in> set rest. \<not> startswith line ''class ''))
       [accounts_table, users_table] blocks"
    by (auto elim: list_all2_mono)
  moreover have "translate ascii_capitalize ([CreateTable accounts_table] @ [CreateTable sqlite_sequence_table] @
                 [CreateTable users_table]) =
       translate ascii_capitalize ([CreateTable accounts_table] @ [CreateTable users_table])"
    using one_class_block_per_table
      [where capitalize = ascii_capitalize and s = sqlite_sequence_table and
        xs = "[CreateTable accounts_table]" and ys = "[CreateTable users_table]" and
        output_path = "''models.py''" and fs = "[]", THEN conjunct2, rule_format, OF pre]
    by simp
  ultimately show ?thesis
    using pre doc by blast
qed


section \<open>Failure writes nothing\<close>

text \<open>
  C8. On every input on which a check fails (\<open>accepted_input\<close> does not hold: a
  statement that is no \<^verbatim>\<open>CREATE\<close> of a table or an index, or a translated table with a
  constraint or a column that raises), the run returns an error and the list of writes
  is as it was. On every other input the run succeeds and appends exactly one write:
  the header followed by all lines joined by newlines. So the output is written if and
  only if the whole translation succeeds.
\<close>

theorem fail_fast_single_write:
  "(\<not> accepted_input exprs \<longrightarrow>
      (\<exists>e. convert_sqlite_to_orm capitalize exprs output_path fs = (Inl e, fs)))
   \<and> (accepted_input exprs \<longrightarrow>
      (\<exists>lines. translate_lines capitalize exprs = Inr lines \<and>
         convert_sqlite_to_orm capitalize exprs output_path fs =
           (Inr (), fs @ [(output_path, header @ join nl lines)])))"
proof (cases "translate_lines capitalize exprs")
  case (Inl e)
  then have "\<not> accepted_input exprs"
    using translate_lines_accepted [of capitalize exprs] by auto
  then show ?thesis
    using Inl by (simp add: convert_result)
next
  case (Inr lines)
  then have "accepted_input exprs"
    using translate_lines_accepted [of capitalize exprs] by auto
  then show ?thesis
    using Inr by (simp add: convert_result)
qed

theorem fail_fast_single_write_witness:
  "\<not> accepted_input [CreateTable accounts_table, CreateTable blob_table]
   \<and> (\<exists>e. convert_sqlite_to_orm ascii_capitalize
              [CreateTable accounts_table, CreateTable blob_table]
              ''models.py'' [(''models.py'', ''old'')] =
            (Inl e, [(''models.py'', ''old'')]))
   \<and> \<not> accepted_input [CreateTable visits_table]
   \<and> (\<exists>e. convert_sqlite_to_orm ascii_capitalize [CreateTable visits_table] ''models.py'' [] =
            (Inl e, []))
   \<and> accepted_input [CreateTable accounts_table]
   \<and> fst (convert_sqlite_to_orm ascii_capitalize [CreateTable accounts_table] ''models.py'' []) =
       Inr ()
   \<and> length (snd (convert_sqlite_to_orm ascii_capitalize [CreateTable accounts_table]
                    ''models.py'' [])) = 1"
proof -
  have bad: "\<not> accepted_input [CreateTable accounts_table, CreateTable blob_table]"
    by (simp add: accepted_input_def accepted_table_def accepted_column_def blob_table_def
        startswith_def)
  have bare: "\<not> accepted_input [CreateTable visits_table]"
    by (simp add: accepted_input_def accepted_table_def visits_table_def fk_bare_def
        startswith_def)
  have good: "accepted_input [CreateTable accounts_table]"
    by (simp add: accepted_input_def accepted_table_def accepted_column_def accounts_table_def
        id_col_def note_col_def)
  have "\<exists>e. convert_sqlite_to_orm ascii_capitalize
              [CreateTable accounts_table, CreateTable blob_table]
              ''models.py'' [(''models.py'', ''old'')] =
            (Inl e, [(''models.py'', ''old'')])"
    using fail_fast_single_write
      [where capitalize = ascii_capitalize and
        exprs = "[CreateTable accounts_table, CreateTable blob_table]",
        THEN conjunct1, rule_format, OF bad] .
  moreover have "\<exists>e. convert_sqlite_to_orm ascii_capitalize [CreateTable visits_table]
              ''models.py'' [] = (Inl e, [])"
    using fail_fast_single_write
      [where capitalize = ascii_capitalize and exprs = "[CreateTable visits_table]",
        THEN conjunct1, rule_format, OF bare] .
  moreover obtain lines where
    "convert_sqlite_to_orm ascii_capitalize [CreateTable accounts_table] ''models.py'' [] =
       (Inr (), [] @ [(''models.py'', header @ join nl lines)])"
    using fail_fast_single_write
      [where capitalize = ascii_capitalize and exprs = "[CreateTable accounts_table]" and
        output_path = "''models.py''" and fs = "[]", THEN conjunct2, rule_format, OF good]
    by blast
  ultimately show ?thesis
    using bad bare good by simp
qed


section \<open>Foreign keys\<close>





section \<open>Rendering of the table-level declarations\<close>

text \<open>
  C9. The code decides between the block of several lines and the single line by
  comparing the length of the joined declarations plus 23 with 100, but the single
  line is 24 characters longer than the joined declarations. For the table
  \<^verbatim>\<open>series\<close>, whose only declaration has 77 characters, the declarations are rendered
  on a single line of 101 characters.
\<close>

theorem inline_line_exceeds_budget:
  "translate_lines ascii_capitalize [CreateTable series_table] =
     Inr (table_head ascii_capitalize ''series'' @
          [''    __table_args__ = (PrimaryKeyConstraint('' @ quoted ''id'' @ '', name='' @
             quoted ''pk_measurements_of_the_long_running_series'' @ ''),)'',
           ''    id: Mapped[int]'', '''', ''''])
   \<and> length (''    __table_args__ = (PrimaryKeyConstraint('' @ quoted ''id'' @ '', name='' @
               quoted ''pk_measurements_of_the_long_running_series'' @ ''),)'') = 101
   \<and> MAX_LINE_LENGTH = 100"
  by (simp add: translate_lines_def series_table_def series_key_def id_col_def startswith_def
      table_lines_unfold render_table_args_def MAX_LINE_LENGTH_def get_indexes_def
      column_line_def map_type_def quoted_def)


section \<open>Fields of primary-key columns\<close>





section \<open>Indexes and their tables\<close>

text \<open>
  C6, as stated, fails: with two index statements of the same table, moving the first
  of them from before the table statement to after it changes the order of the two
  declarations in the table's block, and so the output.
\<close>

theorem index_order_counterexample:
  "translate ascii_capitalize
     [CreateIndex users_name_index, CreateIndex users_id_index, CreateTable users_table] \<noteq>
   translate ascii_capitalize
     [CreateIndex users_id_index, CreateTable users_table, CreateIndex users_name_index]"
proof -
  let ?key = "''        PrimaryKeyConstraint('' @ quoted ''id'' @ '', name='' @ quoted ''pk_users'' @ ''),''"
  let ?by_name = "''        Index('' @ quoted ''ix_users_name'' @ '', '' @ quoted ''name'' @
                  '', unique=True),''"
  let ?by_id = "''        Index('' @ quoted ''ix_users_id'' @ '', '' @ quoted ''id'' @ ''),''"
  let ?fields = "[''    )'', ''    id: Mapped[int]'',
                  ''    name: Mapped[str] = mapped_column(String(50))'', '''', '''']"
  have before: "translate_lines ascii_capitalize
      [CreateIndex users_name_index, CreateIndex users_id_index, CreateTable users_table] =
      Inr (table_head ascii_capitalize ''users'' @
           [''    __table_args__ = ('', ?key, ?by_name, ?by_id] @ ?fields)"
    by (simp add: translate_lines_def users_table_def users_name_index_def users_id_index_def
        table_lines_unfold setdefault_append_def get_indexes_def index_decl_def quoted_def
        startswith_def render_table_args_def MAX_LINE_LENGTH_def column_line_def map_type_def
        parse_varchar_def isdigit_def isdigit_char_def id_col_def)
  have after: "translate_lines ascii_capitalize
      [CreateIndex users_id_index, CreateTable users_table, CreateIndex users_name_index] =
      Inr (table_head ascii_capitalize ''users'' @
           [''    __table_args__ = ('', ?key, ?by_id, ?by_name] @ ?fields)"
    by (simp add: translate_lines_def users_table_def users_name_index_def users_id_index_def
        table_lines_unfold setdefault_append_def get_indexes_def index_decl_def quoted_def
        startswith_def render_table_args_def MAX_LINE_LENGTH_def column_line_def map_type_def
        parse_varchar_def isdigit_def isdigit_char_def id_col_def)
  show ?thesis
    unfolding translate_def before after
    by (simp add: table_head_def quoted_def)
qed

text \<open>
  C6, amended. Moving an index statement from before a table statement to after it
  leaves the translation unchanged when no index statement of the same table is passed
  on the way; the text handed to the writer and the outcome of the whole run are the
  same. For every table, the declarations rendered in its \<^verbatim>\<open>__table_args__\<close> are those of
  its constraints followed by the declarations of all index statements of the input
  that name the table, in input order.
\<close>

theorem index_order_independent:
  assumes "\<forall>j \<in> set (indexes_of (ys1 @ ys2)). index_table j \<noteq> index_table i"
  shows "translate capitalize (xs @ [CreateIndex i] @ ys1 @ [CreateTable t] @ ys2 @ zs) =
         translate capitalize (xs @ ys1 @ [CreateTable t] @ ys2 @ [CreateIndex i] @ zs)
       \<and> convert_sqlite_to_orm capitalize
           (xs @ [CreateIndex i] @ ys1 @ [CreateTable t] @ ys2 @ zs) output_path fs =
         convert_sqlite_to_orm capitalize
           (xs @ ys1 @ [CreateTable t] @ ys2 @ [CreateIndex i] @ zs) output_path fs
       \<and> table_lines capitalize (indexes_loop Map.empty (indexes_of exprs)) t =
           (case constraints_loop ([], []) (find_all_Constraint (table_expressions t)) of
              Inl e \<Rightarrow> Inl e
            | Inr st \<Rightarrow>
                (case columns_loop (fst st) (find_all_ColumnDef (table_expressions t)) of
                   Inl e \<Rightarrow> Inl e
                 | Inr col_lines \<Rightarrow>
                     Inr (table_head capitalize (table_name t) @
                          render_table_args
                            (snd st @ map index_decl
                               (filter (\<lambda>j. index_table j = table_name t) (indexes_of exprs))) @
                          col_lines @ ['''', ''''])))"
proof -
  let ?a = "xs @ [CreateIndex i] @ ys1 @ [CreateTable t] @ ys2 @ zs"
  let ?b = "xs @ ys1 @ [CreateTable t] @ ys2 @ [CreateIndex i] @ zs"
  have none1: "filter (\<lambda>j. index_table j = index_table i) (indexes_of ys1) = []"
    using assms by (auto simp: filter_empty_conv indexes_of_append)
  have none2: "filter (\<lambda>j. index_table j = index_table i) (indexes_of ys2) = []"
    using assms by (auto simp: filter_empty_conv indexes_of_append)
  have idx: "get_indexes (indexes_loop Map.empty (indexes_of ?a)) T =
             get_indexes (indexes_loop Map.empty (indexes_of ?b)) T" for T
  proof (cases "T = index_table i")
    case True
    then show ?thesis
      by (simp add: get_indexes_indexes_loop indexes_of_append none1 none2)
  next
    case False
    then have "index_table i \<noteq> T" by blast
    then show ?thesis
      by (simp add: get_indexes_indexes_loop indexes_of_append)
  qed
  have "translate_lines capitalize ?a = translate_lines capitalize ?b"
  proof (rule translate_lines_cong)
    show "list_all is_Create ?a = list_all is_Create ?b" by auto
    show "list_all kind_is_table_or_index ?a = list_all kind_is_table_or_index ?b" by auto
    show "tables_of ?a = tables_of ?b" by (simp add: tables_of_append)
  qed (rule idx)
  then have moved: "translate capitalize ?a = translate capitalize ?b \<and>
      convert_sqlite_to_orm capitalize ?a output_path fs =
      convert_sqlite_to_orm capitalize ?b output_path fs"
    by (rule convert_cong)
  have block: "get_indexes (indexes_loop Map.empty (indexes_of exprs)) (table_name t) =
      map index_decl (filter (\<lambda>j. index_table j = table_name t) (indexes_of exprs))"
    by (simp add: get_indexes_indexes_loop get_indexes_empty)
  show ?thesis
    using moved by (simp only: table_lines_unfold block)
qed

theorem index_order_independent_witness:
  "map index_table (indexes_of ([CreateIndex orphan_index] @ [])) = [''ghost'']
   \<and> index_table users_name_index = ''users''
   \<and> translate ascii_capitalize
       ([] @ [CreateIndex users_name_index] @ [CreateIndex orphan_index] @
        [CreateTable users_table] @ [] @ []) =
     translate ascii_capitalize
       ([] @ [CreateIndex orphan_index] @ [CreateTable users_table] @ [] @
        [CreateIndex users_name_index] @ [])"
proof -
  have h: "\<forall>j \<in> set (indexes_of ([CreateIndex orphan_index] @ [])).
      index_table j \<noteq> index_table users_name_index"
    by (simp add: users_name_index_def orphan_index_def)
  show ?thesis
    using index_order_independent
      [OF h, where capitalize = ascii_capitalize and xs = "[]" and t = users_table and zs = "[]"]
    by (simp add: users_name_index_def orphan_index_def)
qed

text \<open>
  C10. An index statement whose table name is the name of no table statement that is
  translated (no table statement has the name, or only ones whose name starts with
  \<^verbatim>\<open>sqlite_\<close>) changes nothing: with or without it, the translation gives the same
  text or the same error.
\<close>

theorem unmatched_index_dropped:
  assumes "\<forall>t \<in> set (tables_of (xs @ ys)).
             \<not> startswith (table_name t) ''sqlite_'' \<longrightarrow> table_name t \<noteq> index_table i"
  shows "translate capitalize (xs @ [CreateIndex i] @ ys) = translate capitalize (xs @ ys)
       \<and> convert_sqlite_to_orm capitalize (xs @ [CreateIndex i] @ ys) output_path fs =
           convert_sqlite_to_orm capitalize (xs @ ys) output_path fs"
proof (rule convert_cong, rule translate_lines_cong)
  show "list_all is_Create (xs @ [CreateIndex i] @ ys) = list_all is_Create (xs @ ys)"
    by simp
  show "list_all kind_is_table_or_index (xs @ [CreateIndex i] @ ys) =
        list_all kind_is_table_or_index (xs @ ys)"
    by simp
  show "tables_of (xs @ [CreateIndex i] @ ys) = tables_of (xs @ ys)"
    by (simp add: tables_of_append)
next
  fix t
  assume "t \<in> set (tables_of (xs @ ys))" "\<not> startswith (table_name t) ''sqlite_''"
  then have "table_name t \<noteq> index_table i"
    using assms by blast
  then show "get_indexes (indexes_loop Map.empty (indexes_of (xs @ [CreateIndex i] @ ys))) (table_name t) =
             get_indexes (indexes_loop Map.empty (indexes_of (xs @ ys))) (table_name t)"
    by (simp add: get_indexes_indexes_loop indexes_of_append)
qed

theorem unmatched_index_dropped_witness:
  "index_table orphan_index = ''ghost''
   \<and> map table_name (tables_of ([CreateTable users_table] @ [CreateIndex users_name_index])) = [''users'']
   \<and> translate ascii_capitalize
       ([CreateTable users_table] @ [CreateIndex orphan_index] @ [CreateIndex users_name_index]) =
     translate ascii_capitalize ([CreateTable users_table] @ [CreateIndex users_name_index])"
proof -
  have h: "\<forall>t \<in> set (tables_of ([CreateTable users_table] @ [CreateIndex users_name_index])).
      \<not> startswith (table_name t) ''sqlite_'' \<longrightarrow> table_name t \<noteq> index_table orphan_index"
    by (simp add: users_table_def orphan_index_def)
  show ?thesis
    using unmatched_index_dropped
      [OF h, where capitalize = ascii_capitalize and output_path = "''models.py''" and fs = "[]"]
    by (simp add: users_table_def orphan_index_def)
qed

end
